theory Spec2Isabelle
  imports Main
begin

section \<open>JavaScript values and operators used by the front end\<close>

text \<open>
  The front end reads optional fields of JSON responses and combines them with the
  operator \<open>||\<close>, which yields its right operand when the left one is falsy. A number
  field that may be absent is an \<open>int option\<close> (\<open>None\<close> is \<open>undefined\<close>); it is falsy
  when absent or zero. A string field is falsy when absent or empty, an array field only
  when absent, a boolean field when absent or false.
\<close>

datatype jsval = JUndefined | JNum int | JStr string

definition js_or_num :: "int option \<Rightarrow> int \<Rightarrow> int" where
  "js_or_num a b = (case a of None \<Rightarrow> b | Some n \<Rightarrow> if n = 0 then b else n)"

definition js_or_str :: "string option \<Rightarrow> string \<Rightarrow> string" where
  "js_or_str a b = (case a of None \<Rightarrow> b | Some s \<Rightarrow> if s = [] then b else s)"

definition js_or_bool :: "bool option \<Rightarrow> bool \<Rightarrow> bool" where
  "js_or_bool a b = (case a of None \<Rightarrow> b | Some x \<Rightarrow> if x then True else b)"

definition js_or_list :: "'a list option \<Rightarrow> 'a list \<Rightarrow> 'a list" where
  "js_or_list a b = (case a of None \<Rightarrow> b | Some xs \<Rightarrow> xs)"

text \<open>
  The operator \<open>!\<close> on a string that may be absent: true for \<open>null\<close>,
  \<open>undefined\<close> and the empty string.
\<close>

definition js_not_str :: "string option \<Rightarrow> bool" where
  "js_not_str a = (case a of None \<Rightarrow> True | Some s \<Rightarrow> s = [])"

text \<open>\<open>String.prototype.startsWith\<close> and \<open>substring(n)\<close>.\<close>

definition startsWith :: "string \<Rightarrow> string \<Rightarrow> bool" where
  "startsWith s p = (take (length p) s = p)"

definition substring :: "string \<Rightarrow> nat \<Rightarrow> string" where
  "substring s n = drop n s"

section \<open>The API client (api/client.js)\<close>

text \<open>
  A request as the client hands it to axios: the path below the base URL and the query
  parameters, in the order of the \<open>params\<close> object. The functions of the client are
  applied to the list of actual arguments, as a JavaScript call does: a formal
  parameter without an actual argument (or with \<open>undefined\<close>) takes its default, and
  an actual argument beyond the formal parameters is dropped.
\<close>

record request =
  url :: string
  params :: "(string \<times> jsval) list"

definition arg_or :: "jsval list \<Rightarrow> nat \<Rightarrow> jsval \<Rightarrow> jsval" where
  "arg_or args i d = (if i < length args \<and> args ! i \<noteq> JUndefined then args ! i else d)"

text \<open>
  \<^verbatim>\<open>getAll: (skip = 0, limit = 50) => client.get('/taf-library/', { params: { skip, limit } })\<close>
\<close>

definition tafLibraryAPI_getAll :: "jsval list \<Rightarrow> request" where
  "tafLibraryAPI_getAll args =
     (let skip = arg_or args 0 (JNum 0); limit = arg_or args 1 (JNum 50)
      in \<lparr>url = ''/taf-library/'', params = [(''skip'', skip), (''limit'', limit)]\<rparr>)"

text \<open>
  An error object: \<open>detail\<close> is \<open>error.response?.data?.detail\<close>. The response
  interceptor of the client stores the message for the user in every rejected request.
  A rejected request carries the error object after the interceptor has run; a resolved
  one carries the response body.
\<close>

record js_error =
  detail :: "string option"
  userMessage :: "string option"
  message :: string


datatype 'a api_result = Rejected js_error | Resolved 'a

section \<open>The TAF library provider (context/TAFLibraryContext.jsx)\<close>

record taf_file =
  name :: string
  is_linked :: bool

text \<open>The body of a response of \<open>/taf-library/\<close>; every field may be absent.\<close>

record taf_data =
  success :: "bool option"
  resp_error :: "string option"
  taf_files :: "taf_file list option"
  total_count :: "int option"
  linked_count :: "int option"
  orphaned_count :: "int option"
  filtered_count :: "int option"
  resp_page :: "int option"
  page_size :: "int option"
  has_next :: "bool option"
  has_prev :: "bool option"

text \<open>The statistics \<open>{total, linked, orphaned}\<close> shown above the library.\<close>

record taf_stats =
  total_stat :: int
  linked :: int
  orphaned :: int

text \<open>The state of the provider: one field for each \<open>useState\<close>.\<close>

record taf_state =
  tafFiles :: "taf_file list"
  stats :: taf_stats
  loading :: bool
  error :: "string option"
  lastUpdated :: "nat option"
  page :: int
  pageSize :: int
  totalCount :: int
  hasNext :: bool
  hasPrev :: bool
  filter_state :: string

definition DEFAULT_PAGE_SIZE :: int where
  "DEFAULT_PAGE_SIZE = 50"

definition initial_taf_state :: taf_state where
  "initial_taf_state =
     \<lparr>tafFiles = [], stats = \<lparr>total_stat = 0, linked = 0, orphaned = 0\<rparr>, loading = True,
      error = None, lastUpdated = None, page = 1, pageSize = DEFAULT_PAGE_SIZE,
      totalCount = 0, hasNext = False, hasPrev = False, filter_state = ''all''\<rparr>"

text \<open>
  The \<open>try\<close> block of \<open>loadTafFiles\<close> after the response has arrived: either the state
  with the response stored, or the error that was thrown.
\<close>

definition store_taf_data :: "nat \<Rightarrow> taf_data \<Rightarrow> taf_state \<Rightarrow> js_error + taf_state" where
  "store_taf_data now d s =
     (if success d = Some False \<and> js_or_str (resp_error d) [] \<noteq> []
      then Inl \<lparr>detail = None, userMessage = None, message = js_or_str (resp_error d) []\<rparr>
      else Inr (s\<lparr>tafFiles := js_or_list (taf_files d) [],
                  stats := \<lparr>total_stat = js_or_num (total_count d) 0,
                            linked = js_or_num (linked_count d) 0,
                            orphaned = js_or_num (orphaned_count d) 0\<rparr>,
                  totalCount := js_or_num (filtered_count d) (js_or_num (total_count d) 0),
                  page := js_or_num (resp_page d) 1,
                  pageSize := js_or_num (page_size d) DEFAULT_PAGE_SIZE,
                  hasNext := js_or_bool (has_next d) False,
                  hasPrev := js_or_bool (has_prev d) False,
                  lastUpdated := Some now\<rparr>))"

text \<open>
  \<open>loadTafFiles\<close>. The callback reads \<open>tafFiles\<close>, \<open>lastUpdated\<close>, \<open>page\<close>, \<open>pageSize\<close> and
  \<open>filter\<close> from the render \<open>c\<close> that created it, and updates the current state \<open>s\<close>. The
  server is a function from the request to its outcome, \<open>now\<close> is \<open>Date.now()\<close>. The
  result is the new state and the requests that were sent.
\<close>

definition loadTafFiles ::
  "taf_state \<Rightarrow> (request \<Rightarrow> taf_data api_result) \<Rightarrow> nat \<Rightarrow> taf_state \<Rightarrow>
   bool \<Rightarrow> int \<Rightarrow> int \<Rightarrow> string \<Rightarrow> taf_state \<times> request list" where
  "loadTafFiles c server now s force newPage newPageSize newFilter =
     (if length (tafFiles c) > 0 \<and> \<not> force \<and> lastUpdated c \<noteq> None \<and> lastUpdated c \<noteq> Some 0
         \<and> newPage = page c \<and> newPageSize = pageSize c \<and> newFilter = filter_state c
      then (s, [])
      else
        let s1 = s\<lparr>loading := True, error := None\<rparr>;
            skip = (newPage - 1) * newPageSize;
            req = tafLibraryAPI_getAll [JNum skip, JNum newPageSize, JStr newFilter];
            outcome = (case server req of
                         Rejected e \<Rightarrow> Inl e
                       | Resolved d \<Rightarrow> store_taf_data now d s1);
            s2 = (case outcome of
                    Inl e \<Rightarrow> s1\<lparr>error := Some (js_or_str (userMessage e) (message e))\<rparr>
                  | Inr s' \<Rightarrow> s')
        in (s2\<lparr>loading := False\<rparr>, [req]))"

definition refresh ::
  "taf_state \<Rightarrow> (request \<Rightarrow> taf_data api_result) \<Rightarrow> nat \<Rightarrow> taf_state \<Rightarrow> taf_state \<times> request list" where
  "refresh c server now s = loadTafFiles c server now s True (page c) (pageSize c) (filter_state c)"

definition goToPage ::
  "taf_state \<Rightarrow> (request \<Rightarrow> taf_data api_result) \<Rightarrow> nat \<Rightarrow> taf_state \<Rightarrow> int \<Rightarrow>
   taf_state \<times> request list" where
  "goToPage c server now s newPage =
     loadTafFiles c server now (s\<lparr>page := newPage\<rparr>) True newPage (pageSize c) (filter_state c)"

definition changePageSize ::
  "taf_state \<Rightarrow> (request \<Rightarrow> taf_data api_result) \<Rightarrow> nat \<Rightarrow> taf_state \<Rightarrow> int \<Rightarrow>
   taf_state \<times> request list" where
  "changePageSize c server now s newPageSize =
     loadTafFiles c server now (s\<lparr>pageSize := newPageSize, page := 1\<rparr>) True 1 newPageSize
       (filter_state c)"

definition setFilter ::
  "taf_state \<Rightarrow> (request \<Rightarrow> taf_data api_result) \<Rightarrow> nat \<Rightarrow> taf_state \<Rightarrow> string \<Rightarrow>
   taf_state \<times> request list" where
  "setFilter c server now s newFilter =
     loadTafFiles c server now (s\<lparr>filter_state := newFilter, page := 1\<rparr>) True 1 (pageSize c)
       newFilter"

subsection \<open>The provider before the status filter was added (src/unnamed/part_009)\<close>

text \<open>
  The earlier revision of the provider has no filter: \<open>loadTafFiles\<close> takes three
  arguments and the pagination total is the response's \<open>total_count\<close>.
\<close>

definition store_taf_data_prev :: "nat \<Rightarrow> taf_data \<Rightarrow> taf_state \<Rightarrow> js_error + taf_state" where
  "store_taf_data_prev now d s =
     (if success d = Some False \<and> js_or_str (resp_error d) [] \<noteq> []
      then Inl \<lparr>detail = None, userMessage = None, message = js_or_str (resp_error d) []\<rparr>
      else Inr (s\<lparr>tafFiles := js_or_list (taf_files d) [],
                  stats := \<lparr>total_stat = js_or_num (total_count d) 0,
                            linked = js_or_num (linked_count d) 0,
                            orphaned = js_or_num (orphaned_count d) 0\<rparr>,
                  totalCount := js_or_num (total_count d) 0,
                  page := js_or_num (resp_page d) 1,
                  pageSize := js_or_num (page_size d) DEFAULT_PAGE_SIZE,
                  hasNext := js_or_bool (has_next d) False,
                  hasPrev := js_or_bool (has_prev d) False,
                  lastUpdated := Some now\<rparr>))"

definition loadTafFiles_prev ::
  "taf_state \<Rightarrow> (request \<Rightarrow> taf_data api_result) \<Rightarrow> nat \<Rightarrow> taf_state \<Rightarrow>
   bool \<Rightarrow> int \<Rightarrow> int \<Rightarrow> taf_state \<times> request list" where
  "loadTafFiles_prev c server now s force newPage newPageSize =
     (if length (tafFiles c) > 0 \<and> \<not> force \<and> lastUpdated c \<noteq> None \<and> lastUpdated c \<noteq> Some 0
         \<and> newPage = page c \<and> newPageSize = pageSize c
      then (s, [])
      else
        let s1 = s\<lparr>loading := True, error := None\<rparr>;
            skip = (newPage - 1) * newPageSize;
            req = tafLibraryAPI_getAll [JNum skip, JNum newPageSize];
            outcome = (case server req of
                         Rejected e \<Rightarrow> Inl e
                       | Resolved d \<Rightarrow> store_taf_data_prev now d s1);
            s2 = (case outcome of
                    Inl e \<Rightarrow> s1\<lparr>error := Some (js_or_str (userMessage e) (message e))\<rparr>
                  | Inr s' \<Rightarrow> s')
        in (s2\<lparr>loading := False\<rparr>, [req]))"

definition changePageSize_prev ::
  "taf_state \<Rightarrow> (request \<Rightarrow> taf_data api_result) \<Rightarrow> nat \<Rightarrow> taf_state \<Rightarrow> int \<Rightarrow>
   taf_state \<times> request list" where
  "changePageSize_prev c server now s newPageSize =
     loadTafFiles_prev c server now (s\<lparr>pageSize := newPageSize, page := 1\<rparr>) True 1 newPageSize"

section \<open>The RFID tags view (components/RFIDTagsView.jsx)\<close>

record rfid_tag =
  uid :: string
  model :: "string option"
  status :: string
  source :: "string option"

text \<open>The body of a response of \<open>/api/rfid-tags/\<close>; every field may be absent.\<close>

record rfid_data =
  tags :: "rfid_tag list option"
  rfid_total_count :: "int option"
  unconfigured_count :: "int option"
  assigned_count :: "int option"
  rfid_resp_page :: "int option"
  rfid_page_size :: "int option"
  rfid_has_next :: "bool option"
  rfid_has_prev :: "bool option"

record rfid_stats =
  stat_total :: int
  stat_unconfigured :: int
  stat_assigned :: int

record rfid_state =
  view_tags :: "rfid_tag list"
  view_stats :: rfid_stats
  view_loading :: bool
  view_error :: "string option"
  view_filter :: string
  view_page :: int
  view_pageSize :: int
  view_totalCount :: int
  view_hasNext :: bool
  view_hasPrev :: bool

text \<open>
  The outcome of \<open>fetch\<close> followed by \<open>response.json()\<close>: an exception with its message
  (network failure, or a body that is not JSON), or a response with its \<open>ok\<close> flag and
  body.
\<close>

datatype fetch_result = FetchThrows string | FetchResponse bool rfid_data

definition is_system_sound :: "rfid_tag \<Rightarrow> bool" where
  "is_system_sound tag = startsWith (js_or_str (model tag) []) ''box-de-de-01-''"

definition count_status :: "string \<Rightarrow> rfid_tag list \<Rightarrow> int" where
  "count_status st ts = int (length (filter (\<lambda>t. status t = st) ts))"

text \<open>The statements of the \<open>try\<close> block after the body has been read.\<close>

definition store_rfid_data :: "rfid_data \<Rightarrow> rfid_state \<Rightarrow> rfid_state" where
  "store_rfid_data d s =
     (let filteredTags = filter (\<lambda>tag. \<not> is_system_sound tag) (js_or_list (tags d) []);
          assigned = count_status ''assigned'' filteredTags;
          unconfigured = count_status ''unconfigured'' filteredTags
      in s\<lparr>view_tags := filteredTags,
            view_stats := \<lparr>stat_total = js_or_num (rfid_total_count d) (int (length filteredTags)),
                            stat_unconfigured = js_or_num (unconfigured_count d) unconfigured,
                            stat_assigned = js_or_num (assigned_count d) assigned\<rparr>,
            view_totalCount := js_or_num (rfid_total_count d) 0,
            view_page := js_or_num (rfid_resp_page d) 1,
            view_pageSize := js_or_num (rfid_page_size d) DEFAULT_PAGE_SIZE,
            view_hasNext := js_or_bool (rfid_has_next d) False,
            view_hasPrev := js_or_bool (rfid_has_prev d) False,
            view_error := None\<rparr>)"

text \<open>
  \<open>loadRFIDTags\<close>: the request goes to \<open>fetch\<close> directly; its query string
  \<open>?skip=..&limit=..\<close> is kept as the parameter list of the request.
\<close>

definition loadRFIDTags ::
  "string \<Rightarrow> (request \<Rightarrow> fetch_result) \<Rightarrow> rfid_state \<Rightarrow> int \<Rightarrow> int \<Rightarrow> rfid_state \<times> request list" where
  "loadRFIDTags API_URL server s newPage newPageSize =
     (let s1 = s\<lparr>view_loading := True\<rparr>;
          skip = (newPage - 1) * newPageSize;
          req = \<lparr>url = API_URL @ ''/api/rfid-tags/'',
                 params = [(''skip'', JNum skip), (''limit'', JNum newPageSize)]\<rparr>;
          s2 = (case server req of
                  FetchThrows m \<Rightarrow> s1\<lparr>view_error := Some m\<rparr>
                | FetchResponse ok d \<Rightarrow>
                    if \<not> ok then s1\<lparr>view_error := Some ''Failed to load RFID tags''\<rparr>
                    else store_rfid_data d s1)
      in (s2\<lparr>view_loading := False\<rparr>, [req]))"

definition handlePageChange ::
  "string \<Rightarrow> (request \<Rightarrow> fetch_result) \<Rightarrow> rfid_state \<Rightarrow> int \<Rightarrow> rfid_state \<times> request list" where
  "handlePageChange API_URL server s newPage =
     loadRFIDTags API_URL server (s\<lparr>view_page := newPage\<rparr>) newPage (view_pageSize s)"

definition handlePageSizeChange ::
  "string \<Rightarrow> (request \<Rightarrow> fetch_result) \<Rightarrow> rfid_state \<Rightarrow> int \<Rightarrow> rfid_state \<times> request list" where
  "handlePageSizeChange API_URL server s newPageSize =
     loadRFIDTags API_URL server (s\<lparr>view_pageSize := newPageSize, view_page := 1\<rparr>) 1 newPageSize"

text \<open>
  \<open>getTAFFileName\<close>. The source of a tag may be missing: \<open>None\<close> is \<open>null\<close> or
  \<open>undefined\<close>, and \<open>if (!source) return null\<close> also catches the empty string. The
  result \<open>None\<close> is \<open>null\<close>.
\<close>

definition getTAFFileName :: "string option \<Rightarrow> string option" where
  "getTAFFileName src =
     (if js_not_str src then None
      else case src of
             None \<Rightarrow> None
           | Some s \<Rightarrow> if startsWith s ''lib://'' then Some (substring s 6) else Some s)"

text \<open>The tags shown in the table: the stored tags under the status tab.\<close>

definition displayed_tags :: "rfid_state \<Rightarrow> rfid_tag list" where
  "displayed_tags s =
     filter (\<lambda>tag. if view_filter s = ''assigned'' then status tag = ''assigned''
                    else if view_filter s = ''unconfigured'' then status tag = ''unconfigured''
                    else True) (view_tags s)"

section \<open>How the requests are sent\<close>



text \<open>
  The second argument of \<open>fetch\<close>, when there is one: the method, and the bound of an
  \<open>AbortSignal.timeout\<close> when a signal is given.
\<close>

record fetch_init =
  fetch_method :: string
  signal_timeout :: "nat option"






section \<open>The tonie editor (components/TonieEditor.jsx)\<close>

record form_data =
  form_model :: string
  audio_id :: string
  hash :: string
  series :: string
  episodes :: string
  title :: string
  language :: string
  pic :: string
  tracks :: "string list"

text \<open>The record being edited; the editor is in edit mode when it was given one.\<close>

record tonie =
  no :: nat

text \<open>The calls the editor makes through \<open>toniesAPI\<close> and \<open>tafMetadataAPI\<close>.\<close>

datatype api_call =
    Update nat form_data
  | Preview form_data
  | Create form_data
  | DownloadCover string

text \<open>The outcome of each call, as the server decides it; a preview is an opaque JSON text.\<close>

record tonies_server =
  on_update :: "nat \<Rightarrow> form_data \<Rightarrow> unit api_result"
  on_preview :: "form_data \<Rightarrow> string api_result"
  on_create :: "form_data \<Rightarrow> unit api_result"
  on_download :: "string \<Rightarrow> string option api_result"

record editor_state =
  formData :: form_data
  editor_error :: "string option"
  showConfirmation :: bool
  previewJson :: "string option"
  coverPreview :: "string option"
  selectedCoverUrl :: "string option"

text \<open>What a handler did: the new state, the calls in order, and whether \<open>onSave\<close> ran.\<close>

record handler_outcome =
  new_state :: editor_state
  calls :: "api_call list"
  saved :: bool
  rethrown :: "js_error option"

definition handleSubmit :: "tonie option \<Rightarrow> tonies_server \<Rightarrow> editor_state \<Rightarrow> handler_outcome" where
  "handleSubmit tonie_opt server s =
     (let s0 = s\<lparr>editor_error := None\<rparr>; fd = formData s in
      if audio_id fd = [] then
        \<lparr>new_state = s0\<lparr>editor_error := Some ''Audio ID is required''\<rparr>, calls = [], saved = False, rethrown = None\<rparr>
      else if hash fd = [] then
        \<lparr>new_state = s0\<lparr>editor_error := Some ''Hash is required''\<rparr>, calls = [], saved = False, rethrown = None\<rparr>
      else if series fd = [] then
        \<lparr>new_state = s0\<lparr>editor_error := Some ''Series name is required''\<rparr>, calls = [], saved = False, rethrown = None\<rparr>
      else
        (case tonie_opt of
           Some t \<Rightarrow>
             (case on_update server (no t) fd of
                Resolved _ \<Rightarrow> \<lparr>new_state = s0, calls = [Update (no t) fd], saved = True, rethrown = None\<rparr>
              | Rejected e \<Rightarrow>
                  \<lparr>new_state = s0\<lparr>editor_error :=
                       Some (''Failed to generate preview: '' @ js_or_str (userMessage e) (message e))\<rparr>,
                   calls = [Update (no t) fd], saved = False, rethrown = None\<rparr>)
         | None \<Rightarrow>
             (case on_preview server fd of
                Resolved preview \<Rightarrow>
                  \<lparr>new_state = s0\<lparr>previewJson := Some preview, showConfirmation := True\<rparr>,
                   calls = [Preview fd], saved = False, rethrown = None\<rparr>
              | Rejected e \<Rightarrow>
                  \<lparr>new_state = s0\<lparr>editor_error :=
                       Some (''Failed to generate preview: '' @ js_or_str (userMessage e) (message e))\<rparr>,
                   calls = [Preview fd], saved = False, rethrown = None\<rparr>)))"

text \<open>
  \<open>handleConfirmCreate\<close>, run by the confirmation dialog: the only place where a
  record is created. \<open>downloadCover\<close> turns a failed download into \<open>null\<close>.
\<close>

definition downloadCover :: "tonies_server \<Rightarrow> string \<Rightarrow> string option" where
  "downloadCover server imageUrl =
     (case on_download server imageUrl of Resolved p \<Rightarrow> p | Rejected _ \<Rightarrow> None)"

definition handleConfirmCreate :: "tonies_server \<Rightarrow> editor_state \<Rightarrow> handler_outcome" where
  "handleConfirmCreate server s =
     (let s0 = s\<lparr>editor_error := None\<rparr>;
          wants_cover = (js_or_str (selectedCoverUrl s) [] \<noteq> [] \<and> js_or_str (coverPreview s) [] = []);
          url = js_or_str (selectedCoverUrl s) [];
          coverPath = (if wants_cover then js_or_str (downloadCover server url) [] else []);
          finalFormData = (if coverPath \<noteq> [] then (formData s)\<lparr>pic := coverPath\<rparr> else formData s);
          made = (if wants_cover then [DownloadCover url] else []) @ [Create finalFormData]
      in case on_create server finalFormData of
           Resolved _ \<Rightarrow>
             \<lparr>new_state = s0\<lparr>showConfirmation := False\<rparr>, calls = made, saved = True,
              rethrown = None\<rparr>
         | Rejected e \<Rightarrow>
             \<lparr>new_state = s0\<lparr>editor_error :=
                  Some (''Failed to save: '' @ js_or_str (detail e) (message e))\<rparr>,
              calls = made, saved = False, rethrown = Some e\<rparr>)"

section \<open>The reconciliation engine\<close>

text \<open>
  Modelled from the spec: the data model of section 3 (ContentFile, CatalogRecord and
  LinkedView). The back end that holds them is not among the source files. Content ids
  are in the canonical decimal string form of section 4.2; an unknown identity field is
  \<open>None\<close>.
\<close>

record ContentFile =
  path :: string
  byte_size :: nat
  track_boundaries :: "nat list"
  content_id :: "string option"
  content_hash :: "string option"

text \<open>
  Modelled from the spec: CatalogRecord of section 3, with the attributes the matching reads; absent
  from the source files.
\<close>

record CatalogRecord =
  record_id :: nat
  is_custom :: bool
  model_code :: string
  content_ids :: "string list"
  content_hashes :: "string list"
  rec_series :: string
  rec_episode :: string
  rec_title :: string
  source_path :: "string option"

text \<open>
  Modelled from the spec: LinkedView of section 3, a content file with zero or one resolved record,
  and the discarded candidates that section 4.5 exposes; absent from the source files.
\<close>

record LinkedView =
  content_file :: ContentFile
  resolved :: "CatalogRecord option"
  discarded :: "CatalogRecord list"

text \<open>
  Modelled from the spec: the path comparison of section 4.5 and section 6, absent from the
  source files: the scheme prefix is stripped, separators are normalized and letter case
  is ignored.
\<close>

fun after_scheme :: "string \<Rightarrow> string option" where
  "after_scheme [] = None"
| "after_scheme (c # cs) =
     (if take 3 (c # cs) = ''://'' then Some (drop 3 (c # cs)) else after_scheme cs)"

text \<open>
  Modelled from the spec: the scheme prefix \<open>scheme://\<close> of section 6 is stripped before a path
  is compared; absent from the source files.
\<close>

definition strip_scheme :: "string \<Rightarrow> string" where
  "strip_scheme s = (case after_scheme s of None \<Rightarrow> s | Some r \<Rightarrow> r)"

text \<open>
  Modelled from the spec: the case-insensitive comparison of section 4.5 folds the letters A to Z
  to lower case; absent from the source files.
\<close>

definition lower_char :: "char \<Rightarrow> char" where
  "lower_char c =
     (let n = (of_char c :: nat) in if 65 \<le> n \<and> n \<le> 90 then char_of (n + 32) else c)"

text \<open>
  Modelled from the spec: the normalized form of a path of section 4.5: no scheme prefix, forward
  slashes, lower case; absent from the source files.
\<close>

definition normalize_path :: "string \<Rightarrow> string" where
  "normalize_path s =
     map (\<lambda>c. if c = CHR 0x5C then CHR ''/'' else lower_char c) (strip_scheme s)"

text \<open>
  Modelled from the spec: the three matching strategies of section 4.5, absent from the
  source files, as matcher functions in their fixed priority order (section 9).
\<close>

definition match_content_id :: "ContentFile \<Rightarrow> CatalogRecord \<Rightarrow> bool" where
  "match_content_id f r = (case content_id f of None \<Rightarrow> False | Some c \<Rightarrow> c \<in> set (content_ids r))"

text \<open>
  Modelled from the spec: strategy 2 of section 4.5, the hash match; absent from the source files.
\<close>

definition match_hash :: "ContentFile \<Rightarrow> CatalogRecord \<Rightarrow> bool" where
  "match_hash f r = (case content_hash f of None \<Rightarrow> False | Some h \<Rightarrow> h \<in> set (content_hashes r))"

text \<open>
  Modelled from the spec: strategy 3 of section 4.5, the source-path match of a custom record;
  absent from the source files.
\<close>

definition match_source_path :: "ContentFile \<Rightarrow> CatalogRecord \<Rightarrow> bool" where
  "match_source_path f r =
     (is_custom r \<and>
      (case source_path r of None \<Rightarrow> False | Some p \<Rightarrow> normalize_path p = normalize_path (path f)))"

text \<open>
  Modelled from the spec: the fixed priority order of the strategies (sections 4.5 and 9); absent
  from the source files.
\<close>

definition strategies :: "(ContentFile \<Rightarrow> CatalogRecord \<Rightarrow> bool) list" where
  "strategies = [match_content_id, match_hash, match_source_path]"

text \<open>
  Modelled from the spec: the resolution of one content file (section 4.5), absent from the
  source files. The candidates are the records matched by each strategy, in priority
  order; the first one is the resolved record and the other, different ones are the
  discarded candidates.
\<close>

definition candidates :: "CatalogRecord list \<Rightarrow> ContentFile \<Rightarrow> CatalogRecord list" where
  "candidates catalog f = concat (map (\<lambda>m. filter (m f) catalog) strategies)"

text \<open>
  Modelled from the spec: the view of one content file (section 4.5): the first candidate is
  resolved, the other records among the candidates are discarded, and a file without
  candidate is orphaned; absent from the source files.
\<close>

definition reconcile_file :: "CatalogRecord list \<Rightarrow> ContentFile \<Rightarrow> LinkedView" where
  "reconcile_file catalog f =
     (case candidates catalog f of
        [] \<Rightarrow> \<lparr>content_file = f, resolved = None, discarded = []\<rparr>
      | r # rs \<Rightarrow> \<lparr>content_file = f, resolved = Some r, discarded = remdups (filter (\<lambda>x. x \<noteq> r) rs)\<rparr>)"

text \<open>
  Modelled from the spec: a view is linked when it has a resolved record (section 4.5); absent from
  the source files.
\<close>

definition is_linked_view :: "LinkedView \<Rightarrow> bool" where
  "is_linked_view v = (resolved v \<noteq> None)"

text \<open>
  Modelled from the spec: a view is orphaned when no strategy matched (section 4.5); absent from
  the source files.
\<close>

definition is_orphaned_view :: "LinkedView \<Rightarrow> bool" where
  "is_orphaned_view v = (resolved v = None)"

text \<open>
  Modelled from the spec: \<open>scanAndReconcile\<close> of section 6 with the statistics, the status
  filter and the offset/limit slice of section 4.5, absent from the source files.
\<close>

datatype filter_status = All | Linked | Orphaned

text \<open>
  Modelled from the spec: the result of \<open>scanAndReconcile\<close> (section 6); absent from the source files.
\<close>

record scan_result =
  sr_items :: "LinkedView list"
  sr_totalCount :: nat
  sr_filteredCount :: nat
  sr_linkedCount :: nat
  sr_orphanedCount :: nat
  sr_hasNext :: bool
  sr_hasPrev :: bool

text \<open>
  Modelled from the spec: the optional status filter of section 4.5; absent from the source files.
\<close>

definition apply_filter :: "filter_status option \<Rightarrow> LinkedView list \<Rightarrow> LinkedView list" where
  "apply_filter fs views =
     (case fs of
        None \<Rightarrow> views
      | Some All \<Rightarrow> views
      | Some Linked \<Rightarrow> filter is_linked_view views
      | Some Orphaned \<Rightarrow> filter is_orphaned_view views)"

text \<open>
  Modelled from the spec: \<open>scanAndReconcile\<close> (sections 4.5 and 6): the statistics over the full
  file set, the filtered count, and the offset/limit slice of the filtered views in scan
  order; absent from the source files.
\<close>

definition scanAndReconcile ::
  "ContentFile list \<Rightarrow> CatalogRecord list \<Rightarrow> filter_status option \<Rightarrow> nat \<Rightarrow> nat \<Rightarrow> scan_result" where
  "scanAndReconcile files catalog filterStatus skip limit =
     (let views = map (reconcile_file catalog) files;
          filtered = apply_filter filterStatus views
      in \<lparr>sr_items = take limit (drop skip filtered),
          sr_totalCount = length views,
          sr_filteredCount = length filtered,
          sr_linkedCount = length (filter is_linked_view views),
          sr_orphanedCount = length (filter is_orphaned_view views),
          sr_hasNext = (skip + limit < length filtered),
          sr_hasPrev = (0 < skip)\<rparr>)"

text \<open>
  Modelled from the spec: the body of the \<open>/taf-library/\<close> response, whose endpoint is
  absent from the source files: the result of \<open>scanAndReconcile\<close> under the field names
  that \<open>loadTafFiles\<close> reads.
\<close>

definition taf_library_response :: "scan_result \<Rightarrow> taf_data" where
  "taf_library_response r =
     \<lparr>success = None, resp_error = None,
      taf_files = Some (map (\<lambda>v. \<lparr>name = path (content_file v), is_linked = is_linked_view v\<rparr>) (sr_items r)),
      total_count = Some (int (sr_totalCount r)),
      linked_count = Some (int (sr_linkedCount r)),
      orphaned_count = Some (int (sr_orphanedCount r)),
      filtered_count = Some (int (sr_filteredCount r)),
      resp_page = None, page_size = None,
      has_next = Some (sr_hasNext r), has_prev = Some (sr_hasPrev r)\<rparr>"

section \<open>The filename heuristic parser\<close>








section \<open>Example inputs\<close>

text \<open>
  A response to a library load under the filter \<open>orphaned\<close> when all five files are
  linked: no item matches the filter.
\<close>

definition all_linked_page :: taf_data where
  "all_linked_page =
     \<lparr>success = Some True, resp_error = None, taf_files = Some [],
      total_count = Some 5, linked_count = Some 5, orphaned_count = Some 0,
      filtered_count = Some 0, resp_page = Some 1, page_size = Some 50,
      has_next = Some False, has_prev = Some False\<rparr>"

definition network_down :: js_error where
  "network_down = \<lparr>detail = None, userMessage = Some ''Network Error'', message = ''Network Error''\<rparr>"

definition third_page :: taf_state where
  "third_page = initial_taf_state\<lparr>page := 3, filter_state := ''linked''\<rparr>"

text \<open>A catalog of two records and two content files, one of them without identity.\<close>

definition rec_by_hash :: CatalogRecord where
  "rec_by_hash =
     \<lparr>record_id = 1, is_custom = False, model_code = ''10000123'', content_ids = [''200''],
      content_hashes = [''aa''], rec_series = ''Heidi'', rec_episode = ''Episode 03'',
      rec_title = ''Der Grossvater'', source_path = None\<rparr>"

definition rec_by_id :: CatalogRecord where
  "rec_by_id =
     \<lparr>record_id = 2, is_custom = True, model_code = ''900001'', content_ids = [''100''],
      content_hashes = [''ff''], rec_series = ''Die Schule der magischen Tiere'',
      rec_episode = ''Folge 01'', rec_title = [], source_path = None\<rparr>"

definition example_catalog :: "CatalogRecord list" where
  "example_catalog = [rec_by_hash, rec_by_id]"

definition file_both :: ContentFile where
  "file_both =
     \<lparr>path = ''schule/folge01.taf'', byte_size = 4096, track_boundaries = [0, 120],
      content_id = Some ''100'', content_hash = Some ''aa''\<rparr>"

definition file_unknown :: ContentFile where
  "file_unknown =
     \<lparr>path = ''new/unknown.taf'', byte_size = 512, track_boundaries = [],
      content_id = None, content_hash = None\<rparr>"

text \<open>A tag listing with one system sound among three tags.\<close>

definition tag_system :: rfid_tag where
  "tag_system = \<lparr>uid = ''E00403500000001'', model = Some ''box-de-de-01-0001'',
     status = ''assigned'', source = None\<rparr>"

definition tag_custom :: rfid_tag where
  "tag_custom = \<lparr>uid = ''E00403500000002'', model = Some ''900001'',
     status = ''assigned'', source = Some ''lib://schule/folge01.taf''\<rparr>"

definition tag_blank :: rfid_tag where
  "tag_blank = \<lparr>uid = ''E00403500000003'', model = None,
     status = ''unconfigured'', source = None\<rparr>"

definition example_listing :: rfid_data where
  "example_listing =
     \<lparr>tags = Some [tag_system, tag_custom, tag_blank], rfid_total_count = Some 3,
      unconfigured_count = Some 0, assigned_count = None, rfid_resp_page = Some 1,
      rfid_page_size = Some 50, rfid_has_next = Some False, rfid_has_prev = Some False\<rparr>"

definition initial_rfid_state :: rfid_state where
  "initial_rfid_state =
     \<lparr>view_tags = [], view_stats = \<lparr>stat_total = 0, stat_unconfigured = 0, stat_assigned = 0\<rparr>,
      view_loading = True, view_error = None, view_filter = ''all'', view_page = 1,
      view_pageSize = DEFAULT_PAGE_SIZE, view_totalCount = 0, view_hasNext = False,
      view_hasPrev = False\<rparr>"

text \<open>An editor form, complete and with the hash missing, and a server that accepts.\<close>

definition complete_form :: form_data where
  "complete_form =
     \<lparr>form_model = ''900001'', audio_id = ''100'', hash = ''aa'',
      series = ''Die Schule der magischen Tiere'', episodes = ''Folge 01'', title = [],
      language = ''de-de'', pic = [], tracks = []\<rparr>"

definition editor_with :: "form_data \<Rightarrow> editor_state" where
  "editor_with fd =
     \<lparr>formData = fd, editor_error = None, showConfirmation = False, previewJson = None,
      coverPreview = None, selectedCoverUrl = None\<rparr>"

definition accepting_server :: tonies_server where
  "accepting_server =
     \<lparr>on_update = (\<lambda>n fd. Resolved ()), on_preview = (\<lambda>fd. Resolved ''{}''),
      on_create = (\<lambda>fd. Resolved ()), on_download = (\<lambda>u. Resolved None)\<rparr>"

section \<open>Auxiliary facts\<close>

lemma getAll_three_arguments:
  "tafLibraryAPI_getAll [JNum a, JNum b, JStr f] =
     \<lparr>url = ''/taf-library/'', params = [(''skip'', JNum a), (''limit'', JNum b)]\<rparr>"
  by (simp add: tafLibraryAPI_getAll_def arg_or_def)

lemma getAll_two_arguments:
  "tafLibraryAPI_getAll [JNum a, JNum b] =
     \<lparr>url = ''/taf-library/'', params = [(''skip'', JNum a), (''limit'', JNum b)]\<rparr>"
  by (simp add: tafLibraryAPI_getAll_def arg_or_def)

lemma orphaned_iff_not_linked: "is_orphaned_view v = (\<not> is_linked_view v)"
  by (simp add: is_orphaned_view_def is_linked_view_def)

lemma linked_orphaned_partition:
  "length (filter is_linked_view vs) + length (filter is_orphaned_view vs) = length vs"
  by (induction vs) (simp_all add: orphaned_iff_not_linked)

lemma scan_counts_sum:
  "sr_linkedCount (scanAndReconcile files catalog fs skip limit)
     + sr_orphanedCount (scanAndReconcile files catalog fs skip limit)
   = sr_totalCount (scanAndReconcile files catalog fs skip limit)"
  using linked_orphaned_partition [of "map (reconcile_file catalog) files"]
  by (simp add: scanAndReconcile_def Let_def)

lemma js_or_num_of_nat: "js_or_num (Some (int k)) 0 = int k"
  by (simp add: js_or_num_def)

lemma stats_after_load:
  "stats (fst (loadTafFiles c (\<lambda>req. Resolved (taf_library_response r)) now s True p n f))
   = \<lparr>total_stat = int (sr_totalCount r), linked = int (sr_linkedCount r),
      orphaned = int (sr_orphanedCount r)\<rparr>"
  by (simp add: loadTafFiles_def Let_def store_taf_data_def taf_library_response_def
      js_or_num_of_nat)

lemma find_gives_first_filtered: "find P xs = Some x \<Longrightarrow> \<exists>ys. filter P xs = x # ys"
  by (induction xs) (auto split: if_splits)

section \<open>Properties\<close>

subsection \<open>The status filter of a library load\<close>

text \<open>
  Claim C1. A library load should carry the status filter chosen by the caller to the
  server. In the code, \<open>loadTafFiles\<close> hands the filter to \<open>tafLibraryAPI.getAll\<close> as
  a third argument, and \<open>getAll\<close> has two parameters: the request that leaves the client
  holds \<open>skip\<close> and \<open>limit\<close> only, whatever the filter is.
\<close>

theorem loadTafFiles_request_without_filter:
  "snd (loadTafFiles c server now s True newPage newPageSize newFilter) =
     [\<lparr>url = ''/taf-library/'',
       params = [(''skip'', JNum ((newPage - 1) * newPageSize)), (''limit'', JNum newPageSize)]\<rparr>]"
  by (simp add: loadTafFiles_def Let_def getAll_three_arguments)

subsection \<open>The pagination total\<close>

text \<open>
  Claim C2. The pagination total should be the filtered count of the response, also when
  that count is 0. In the code a filtered count of 0 is falsy, so the total count takes
  its place: for the response \<open>all_linked_page\<close> (five files, none matching the filter)
  the pagination total is 5, the same number as the total of the statistics.
\<close>

theorem loadTafFiles_zero_filtered_count:
  "totalCount (fst (loadTafFiles initial_taf_state (\<lambda>req. Resolved all_linked_page) 1
      initial_taf_state True 1 50 ''orphaned'')) = 5
   \<and> filtered_count all_linked_page = Some 0
   \<and> total_stat (stats (fst (loadTafFiles initial_taf_state (\<lambda>req. Resolved all_linked_page) 1
      initial_taf_state True 1 50 ''orphaned''))) = 5"
  by (simp add: loadTafFiles_def Let_def store_taf_data_def all_linked_page_def js_or_num_def
      js_or_str_def)

subsection \<open>The statistics partition the files\<close>

text \<open>
  Claim C3. For every reconciliation result the linked count plus the orphaned count is
  the total count; every view is either linked or orphaned and never both; and the
  statistics that \<open>loadTafFiles\<close> stores from the response of any page satisfy the same
  equation.
\<close>

theorem reconciliation_counts_partition:
  "sr_linkedCount (scanAndReconcile files catalog fs skip limit)
     + sr_orphanedCount (scanAndReconcile files catalog fs skip limit)
     = sr_totalCount (scanAndReconcile files catalog fs skip limit)
   \<and> (\<forall>v. is_linked_view v \<noteq> is_orphaned_view v)
   \<and> (let s' = fst (loadTafFiles c
          (\<lambda>req. Resolved (taf_library_response (scanAndReconcile files catalog fs skip limit)))
          now s True p n f)
      in linked (stats s') + orphaned (stats s') = total_stat (stats s'))"
proof -
  have "int (sr_linkedCount (scanAndReconcile files catalog fs skip limit))
     + int (sr_orphanedCount (scanAndReconcile files catalog fs skip limit))
     = int (sr_totalCount (scanAndReconcile files catalog fs skip limit))"
    using scan_counts_sum [of files catalog fs skip limit] by linarith
  then show ?thesis
    by (simp add: scan_counts_sum orphaned_iff_not_linked stats_after_load Let_def)
qed

theorem reconciliation_counts_partition_witness:
  "sr_linkedCount (scanAndReconcile [file_both, file_unknown] example_catalog (Some Orphaned) 0 50) = 1
   \<and> sr_orphanedCount (scanAndReconcile [file_both, file_unknown] example_catalog (Some Orphaned) 0 50) = 1
   \<and> sr_totalCount (scanAndReconcile [file_both, file_unknown] example_catalog (Some Orphaned) 0 50) = 2"
proof -
  have a: "sr_linkedCount (scanAndReconcile [file_both, file_unknown] example_catalog (Some Orphaned) 0 50) = 1"
    by code_simp
  have b: "sr_orphanedCount (scanAndReconcile [file_both, file_unknown] example_catalog (Some Orphaned) 0 50) = 1"
    by code_simp
  show ?thesis
    using reconciliation_counts_partition
      [of "[file_both, file_unknown]" example_catalog "Some Orphaned" 0 50, THEN conjunct1] a b
    by simp
qed

subsection \<open>Priority of the content-id match\<close>

text \<open>
  Claim C4. When a content file matches one catalog record by content id and a different
  one by content hash, the resolved record is the content-id match and the hash match is
  among the discarded candidates of the view.
\<close>

theorem content_id_priority:
  assumes id_match: "find (match_content_id f) catalog = Some r1"
    and in_catalog: "r2 \<in> set catalog"
    and hash_match: "match_hash f r2"
    and different: "r2 \<noteq> r1"
  shows "resolved (reconcile_file catalog f) = Some r1
     \<and> r2 \<in> set (discarded (reconcile_file catalog f))"
proof -
  obtain ys where ys: "filter (match_content_id f) catalog = r1 # ys"
    using find_gives_first_filtered [OF id_match] by blast
  have cand: "candidates catalog f =
      r1 # (ys @ filter (match_hash f) catalog @ filter (match_source_path f) catalog)"
    by (simp add: candidates_def strategies_def ys)
  have "r2 \<in> set (filter (match_hash f) catalog)"
    using in_catalog hash_match by simp
  then show ?thesis
    using different by (simp add: reconcile_file_def cand)
qed

theorem content_id_priority_witness:
  "find (match_content_id file_both) example_catalog = Some rec_by_id
   \<and> rec_by_hash \<in> set example_catalog
   \<and> match_hash file_both rec_by_hash
   \<and> rec_by_hash \<noteq> rec_by_id
   \<and> resolved (reconcile_file example_catalog file_both) = Some rec_by_id
   \<and> rec_by_hash \<in> set (discarded (reconcile_file example_catalog file_both))"
proof -
  have h1: "find (match_content_id file_both) example_catalog = Some rec_by_id"
    by (simp add: match_content_id_def file_both_def example_catalog_def rec_by_hash_def
        rec_by_id_def)
  have h2: "rec_by_hash \<in> set example_catalog"
    by (simp add: example_catalog_def)
  have h3: "match_hash file_both rec_by_hash"
    by (simp add: match_hash_def file_both_def rec_by_hash_def)
  have h4: "rec_by_hash \<noteq> rec_by_id"
    by (simp add: rec_by_hash_def rec_by_id_def)
  show ?thesis
    using content_id_priority [OF h1 h2 h3 h4] h1 h2 h3 h4 by simp
qed

subsection \<open>Page size changes\<close>

text \<open>
  Claim C5. A change of the page size sends exactly one request, and that request asks for
  the first page (\<open>skip = 0\<close>), whatever the page was before: in the provider, in its
  earlier revision, and in the RFID tags view.
\<close>

theorem page_size_change_requests_first_page:
  "map (\<lambda>r. map_of (params r) ''skip'') (snd (changePageSize c server now s n)) = [Some (JNum 0)]
   \<and> map (\<lambda>r. map_of (params r) ''skip'') (snd (changePageSize_prev c server now s n)) = [Some (JNum 0)]
   \<and> map (\<lambda>r. map_of (params r) ''skip'') (snd (handlePageSizeChange u fetch v n)) = [Some (JNum 0)]"
  by (simp add: changePageSize_def loadTafFiles_def changePageSize_prev_def loadTafFiles_prev_def
      handlePageSizeChange_def loadRFIDTags_def Let_def getAll_three_arguments
      getAll_two_arguments)

theorem page_size_change_requests_first_page_witness:
  "snd (changePageSize third_page (\<lambda>req. Rejected network_down) 7 third_page 25) =
     [\<lparr>url = ''/taf-library/'', params = [(''skip'', JNum 0), (''limit'', JNum 25)]\<rparr>]
   \<and> map (\<lambda>r. map_of (params r) ''skip'')
        (snd (changePageSize third_page (\<lambda>req. Rejected network_down) 7 third_page 25)) = [Some (JNum 0)]"
  using page_size_change_requests_first_page
    [of third_page "\<lambda>req. Rejected network_down" 7 third_page 25]
  by (simp add: changePageSize_def loadTafFiles_def Let_def getAll_three_arguments)

subsection \<open>Source paths of tags\<close>

text \<open>
  Claim C6. A source \<open>lib://p\<close> yields exactly \<open>p\<close>; a source that is there and does
  not start with \<open>lib://\<close> is returned unchanged; a missing source (\<open>!source\<close>: \<open>null\<close>,
  \<open>undefined\<close> or the empty string) yields \<open>null\<close>.
\<close>

theorem getTAFFileName_strips_scheme:
  "getTAFFileName (Some (''lib://'' @ p)) = Some p
   \<and> (\<not> js_not_str (Some s) \<and> \<not> startsWith s ''lib://'' \<longrightarrow> getTAFFileName (Some s) = Some s)
   \<and> (js_not_str src \<longrightarrow> getTAFFileName src = None)"
  by (simp add: getTAFFileName_def js_not_str_def startsWith_def substring_def)

theorem getTAFFileName_strips_scheme_witness:
  "\<not> js_not_str (Some ''schule/folge01.taf'') \<and> \<not> startsWith ''schule/folge01.taf'' ''lib://''
   \<and> js_not_str None
   \<and> getTAFFileName (Some ''lib://schule/folge01.taf'') = Some ''schule/folge01.taf''
   \<and> getTAFFileName (Some ''schule/folge01.taf'') = Some ''schule/folge01.taf''
   \<and> getTAFFileName None = None"
proof -
  have h: "\<not> js_not_str (Some ''schule/folge01.taf'') \<and> \<not> startsWith ''schule/folge01.taf'' ''lib://''"
    by (simp add: js_not_str_def startsWith_def)
  have m: "js_not_str None"
    by (simp add: js_not_str_def)
  show ?thesis
    using getTAFFileName_strips_scheme [of "''schule/folge01.taf''" "''schule/folge01.taf''" None] h m
    by simp
qed

subsection \<open>Filename grammars\<close>



subsection \<open>Timeouts and error messages of remote calls\<close>




subsection \<open>System sounds and tag statistics\<close>

text \<open>
  Claim C9. After a successful tag listing, the stored tags are those of the response
  whose model does not start with \<open>box-de-de-01-\<close>, so no displayed tag is a system
  sound; the assigned and unconfigured statistics are recomputed over the remaining tags
  exactly when the server's count is absent or zero; and the total is the server's total
  count whenever that is nonzero, the number of remaining tags otherwise.
\<close>

theorem loadRFIDTags_system_sounds_and_stats:
  "(let s' = fst (loadRFIDTags u (\<lambda>req. FetchResponse True d) s p n) in
      view_tags s' = filter (\<lambda>t. \<not> startsWith (js_or_str (model t) []) ''box-de-de-01-'')
                       (js_or_list (tags d) [])
    \<and> (\<forall>t \<in> set (displayed_tags s'). \<not> startsWith (js_or_str (model t) []) ''box-de-de-01-'')
    \<and> stat_assigned (view_stats s') =
        (if assigned_count d = None \<or> assigned_count d = Some 0
         then count_status ''assigned'' (view_tags s') else the (assigned_count d))
    \<and> stat_unconfigured (view_stats s') =
        (if unconfigured_count d = None \<or> unconfigured_count d = Some 0
         then count_status ''unconfigured'' (view_tags s') else the (unconfigured_count d))
    \<and> stat_total (view_stats s') =
        (if rfid_total_count d = None \<or> rfid_total_count d = Some 0
         then int (length (view_tags s')) else the (rfid_total_count d)))"
  by (auto simp add: loadRFIDTags_def store_rfid_data_def Let_def is_system_sound_def
        displayed_tags_def js_or_num_def split: option.splits)

theorem loadRFIDTags_system_sounds_and_stats_witness:
  "displayed_tags (fst (loadRFIDTags [] (\<lambda>req. FetchResponse True example_listing)
       initial_rfid_state 1 50)) = [tag_custom, tag_blank]
   \<and> \<not> startsWith (js_or_str (model tag_custom) []) ''box-de-de-01-''
   \<and> view_stats (fst (loadRFIDTags [] (\<lambda>req. FetchResponse True example_listing)
       initial_rfid_state 1 50))
      = \<lparr>stat_total = 3, stat_unconfigured = 1, stat_assigned = 1\<rparr>"
proof -
  have shown: "displayed_tags (fst (loadRFIDTags [] (\<lambda>req. FetchResponse True example_listing)
       initial_rfid_state 1 50)) = [tag_custom, tag_blank]"
    by (simp add: loadRFIDTags_def store_rfid_data_def Let_def displayed_tags_def
        initial_rfid_state_def example_listing_def is_system_sound_def startsWith_def
        js_or_str_def js_or_list_def tag_system_def tag_custom_def tag_blank_def)
  have st: "view_stats (fst (loadRFIDTags [] (\<lambda>req. FetchResponse True example_listing)
       initial_rfid_state 1 50))
      = \<lparr>stat_total = 3, stat_unconfigured = 1, stat_assigned = 1\<rparr>"
    by (simp add: loadRFIDTags_def store_rfid_data_def Let_def count_status_def
        initial_rfid_state_def example_listing_def is_system_sound_def startsWith_def
        js_or_str_def js_or_list_def js_or_num_def tag_system_def tag_custom_def tag_blank_def)
  show ?thesis
    using loadRFIDTags_system_sounds_and_stats
      [of "[]" example_listing initial_rfid_state 1 50] shown st
    by (simp add: Let_def)
qed

subsection \<open>Validation of the editor form\<close>

text \<open>
  Claim C10. When the audio id, the hash or the series of the form is empty, submitting
  makes no API call, sets an error message and leaves the rest of the state as it was.
  When all three are filled in, edit mode makes exactly one update call for the record
  being edited and create mode makes exactly one preview call; submitting never makes a
  create call.
\<close>

theorem handleSubmit_validation_and_calls:
  "(audio_id (formData s) = [] \<or> hash (formData s) = [] \<or> series (formData s) = [] \<longrightarrow>
      calls (handleSubmit t server s) = []
      \<and> \<not> saved (handleSubmit t server s)
      \<and> editor_error (new_state (handleSubmit t server s)) \<noteq> None
      \<and> (new_state (handleSubmit t server s))\<lparr>editor_error := editor_error s\<rparr> = s)
   \<and> (audio_id (formData s) \<noteq> [] \<and> hash (formData s) \<noteq> [] \<and> series (formData s) \<noteq> [] \<longrightarrow>
      (\<forall>tn. t = Some tn \<longrightarrow> calls (handleSubmit t server s) = [Update (no tn) (formData s)])
      \<and> (t = None \<longrightarrow> calls (handleSubmit t server s) = [Preview (formData s)]))
   \<and> (\<forall>fd. Create fd \<notin> set (calls (handleSubmit t server s)))"
  by (auto simp add: handleSubmit_def Let_def split: option.splits api_result.splits)

theorem handleSubmit_validation_and_calls_witness:
  "hash (formData (editor_with (complete_form\<lparr>hash := []\<rparr>))) = []
   \<and> calls (handleSubmit None accepting_server (editor_with (complete_form\<lparr>hash := []\<rparr>))) = []
   \<and> editor_error (new_state (handleSubmit None accepting_server
        (editor_with (complete_form\<lparr>hash := []\<rparr>)))) = Some ''Hash is required''
   \<and> audio_id (formData (editor_with complete_form)) \<noteq> []
   \<and> hash (formData (editor_with complete_form)) \<noteq> []
   \<and> series (formData (editor_with complete_form)) \<noteq> []
   \<and> calls (handleSubmit (Some \<lparr>no = 7\<rparr>) accepting_server (editor_with complete_form))
        = [Update 7 complete_form]
   \<and> calls (handleSubmit None accepting_server (editor_with complete_form))
        = [Preview complete_form]"
proof -
  have empty: "hash (formData (editor_with (complete_form\<lparr>hash := []\<rparr>))) = []"
    by (simp add: editor_with_def)
  have full: "audio_id (formData (editor_with complete_form)) \<noteq> []
      \<and> hash (formData (editor_with complete_form)) \<noteq> []
      \<and> series (formData (editor_with complete_form)) \<noteq> []"
    by (simp add: editor_with_def complete_form_def)
  have msg: "editor_error (new_state (handleSubmit None accepting_server
        (editor_with (complete_form\<lparr>hash := []\<rparr>)))) = Some ''Hash is required''"
    by (simp add: handleSubmit_def Let_def editor_with_def complete_form_def)
  have fd: "formData (editor_with complete_form) = complete_form"
    by (simp add: editor_with_def)
  show ?thesis
    using handleSubmit_validation_and_calls
        [of "editor_with (complete_form\<lparr>hash := []\<rparr>)" None accepting_server]
      handleSubmit_validation_and_calls
        [of "editor_with complete_form" "Some \<lparr>no = 7\<rparr>" accepting_server]
      handleSubmit_validation_and_calls
        [of "editor_with complete_form" None accepting_server]
      empty full msg fd
    by simp
qed

end
